theory Spec2Isabelle
  imports Main
begin

section \<open>Python values handled by \<open>prompt_toolkit/formatted_text/base.py\<close>\<close>

text \<open>
  The functions of \<open>base.py\<close> dispatch on the dynamic type of their argument, so the
  model starts with the fragment of Python values they can tell apart:
  \<^item> \<open>PNone\<close>, strings, integers, tuples and plain lists;
  \<^item> \<open>PFormattedText i xs\<close>: an instance of the class \<open>FormattedText\<close> (a subclass of
    \<open>list\<close>), the object with identity \<open>i\<close> and items \<open>xs\<close>. Plain lists carry no
    identity: \<open>to_formatted_text\<close> never returns one, it copies them;
  \<^item> \<open>PObj pt call st rp\<close>: any other object. \<open>pt = Some r\<close> when the object has the
    attribute \<open>__pt_formatted_text__\<close>, whose call returns \<open>r\<close>; \<open>call = Some v\<close> when the
    object is callable with no argument and returns \<open>v\<close>; \<open>st\<close> and \<open>rp\<close> are its \<open>str()\<close>
    and \<open>repr()\<close>. A function or lambda is \<open>PObj None (Some v) st rp\<close>.
  Producers and conversion methods are pure and return: one that raises or never returns is
  outside this fragment. Strings are lists of 8-bit characters.
\<close>

datatype pyval =
    PNone
  | PStr string
  | PInt int
  | PTuple "pyval list"
  | PList "pyval list"
  | PFormattedText nat "pyval list"
  | PObj "pyval option" "pyval option" string string

text \<open>
  The exceptions the module can raise. \<open>AssertionError (Some v)\<close> is the failed assertion
  of lines 59-62, whose message \<open>'Expecting string, got: %r' % (v, )\<close> reports \<open>v\<close>;
  \<open>AssertionError None\<close> is a failed assertion without message (lines 137 and 144).
  \<open>ValueError_NoFormattedText v\<close> is the \<open>ValueError\<close> of lines 72-73 whose message ends
  with the \<open>repr\<close> of \<open>v\<close>. \<open>ValueError_Unpack\<close> is the \<open>ValueError\<close> that the tuple
  unpacking \<open>for k, v in result\<close> raises when an item has not exactly two fields.
\<close>

datatype pyerror =
    AssertionError "pyval option"
  | ValueError_NoFormattedText pyval
  | ValueError_Unpack
  | TypeError
  | IndexError

text \<open>
  What \<open>to_formatted_text\<close> returns: a \<open>FormattedText\<close> instance, which is either an
  object that existed before the call or one the call has created.
\<close>

datatype obj_ref = Existing nat | Fresh

datatype formatted_text = FormattedText obj_ref "pyval list"

fun ft_ref :: "formatted_text \<Rightarrow> obj_ref" where
  "ft_ref (FormattedText r xs) = r"

fun ft_items :: "formatted_text \<Rightarrow> pyval list" where
  "ft_items (FormattedText r xs) = xs"

subsection \<open>Builtin operations\<close>

text \<open>\<open>isinstance(v, str)\<close>.\<close>

fun is_str :: "pyval \<Rightarrow> bool" where
  "is_str (PStr s) = True"
| "is_str _ = False"

text \<open>\<open>iter(v)\<close>, run to the end: a string yields its characters, each a string of length one.\<close>

fun py_iter :: "pyval \<Rightarrow> pyerror + pyval list" where
  "py_iter (PList xs) = Inr xs"
| "py_iter (PFormattedText i xs) = Inr xs"
| "py_iter (PTuple xs) = Inr xs"
| "py_iter (PStr s) = Inr (map (\<lambda>c. PStr [c]) s)"
| "py_iter _ = Inl TypeError"

text \<open>\<open>v[0]\<close> and \<open>v[1]\<close>: \<open>IndexError\<close> out of range, \<open>TypeError\<close> when \<open>v\<close> has no subscript.\<close>

definition py_getitem :: "pyval \<Rightarrow> nat \<Rightarrow> pyerror + pyval" where
  "py_getitem v n =
     (case py_iter v of
        Inl e \<Rightarrow> Inl e
      | Inr xs \<Rightarrow> if n < length xs then Inr (xs ! n) else Inl IndexError)"

text \<open>\<open>v[1:]\<close>: a tuple gives a tuple, a list (of either class) a plain list, a string a string.\<close>

fun py_slice_from1 :: "pyval \<Rightarrow> pyerror + pyval" where
  "py_slice_from1 (PTuple xs) = Inr (PTuple (drop 1 xs))"
| "py_slice_from1 (PList xs) = Inr (PList (drop 1 xs))"
| "py_slice_from1 (PFormattedText i xs) = Inr (PList (drop 1 xs))"
| "py_slice_from1 (PStr s) = Inr (PStr (drop 1 s))"
| "py_slice_from1 _ = Inl TypeError"

text \<open>\<open>style + ' ' + k\<close> for a string \<open>style\<close>: \<open>TypeError\<close> unless \<open>k\<close> is a string.\<close>

fun str_concat :: "string \<Rightarrow> pyval \<Rightarrow> pyerror + pyval" where
  "str_concat style (PStr k) = Inr (PStr (style @ '' '' @ k))"
| "str_concat style _ = Inl TypeError"

text \<open>\<open>(a, ) + v\<close>: \<open>TypeError\<close> unless \<open>v\<close> is a tuple.\<close>

fun tuple_concat :: "pyval \<Rightarrow> pyval \<Rightarrow> pyerror + pyval" where
  "tuple_concat a (PTuple xs) = Inr (PTuple (a # xs))"
| "tuple_concat a _ = Inl TypeError"

text \<open>
  The unpacking \<open>k, v = item\<close>: \<open>TypeError\<close> when the item is not iterable, \<open>ValueError\<close>
  when it has not exactly two fields.
\<close>

definition unpack2 :: "pyval \<Rightarrow> pyerror + pyval \<times> pyval" where
  "unpack2 item =
     (case py_iter item of
        Inl e \<Rightarrow> Inl e
      | Inr xs \<Rightarrow> (case xs of [k, v] \<Rightarrow> Inr (k, v) | _ \<Rightarrow> Inl ValueError_Unpack))"

subsection \<open>\<open>str()\<close> and \<open>repr()\<close>\<close>

definition digit_char :: "nat \<Rightarrow> char" where
  "digit_char d = ''0123456789abcdef'' ! d"

function str_nat :: "nat \<Rightarrow> string" where
  "str_nat n = (if n < 10 then [digit_char n] else str_nat (n div 10) @ [digit_char (n mod 10)])"
  by pat_completeness auto
termination
  by (relation "measure id") auto

declare str_nat.simps [simp del]

definition str_int :: "int \<Rightarrow> string" where
  "str_int i = (if i < 0 then CHR ''-'' # str_nat (nat (- i)) else str_nat (nat i))"

text \<open>
  \<open>repr\<close> of a string: double quotes when the string has a single quote and no double
  quote, single quotes otherwise; the quote and the backslash are escaped, tab, newline and
  carriage return are written \<open>\t\<close>, \<open>\n\<close>, \<open>\r\<close>, the other control characters \<open>\xhh\<close>.
  Characters from 0x80 on are kept, as Python keeps the printable ones.
\<close>

definition repr_char :: "char \<Rightarrow> char \<Rightarrow> string" where
  "repr_char q c =
     (if c = q \<or> c = CHR 0x5C then [CHR 0x5C, c]
      else if c = CHR 0x09 then [CHR 0x5C, CHR ''t'']
      else if c = CHR 0x0A then [CHR 0x5C, CHR ''n'']
      else if c = CHR 0x0D then [CHR 0x5C, CHR ''r'']
      else if (of_char c :: nat) < 32 \<or> c = CHR 0x7F
        then [CHR 0x5C, CHR ''x'', digit_char (of_char c div 16), digit_char (of_char c mod 16)]
      else [c])"

definition repr_str :: "string \<Rightarrow> string" where
  "repr_str s =
     (let q = (if CHR 0x27 \<in> set s \<and> CHR 0x22 \<notin> set s then CHR 0x22 else CHR 0x27)
      in [q] @ concat (map (repr_char q) s) @ [q])"

fun join_comma :: "string list \<Rightarrow> string" where
  "join_comma [] = []"
| "join_comma [x] = x"
| "join_comma (x # y # ys) = x @ '', '' @ join_comma (y # ys)"

text \<open>
  \<open>repr(v)\<close>. For a \<open>FormattedText\<close> this is the method \<open>__repr__\<close> of lines 121-123.
\<close>

fun py_repr :: "pyval \<Rightarrow> string" where
  "py_repr PNone = ''None''"
| "py_repr (PStr s) = repr_str s"
| "py_repr (PInt i) = str_int i"
| "py_repr (PTuple xs) =
     ''('' @ join_comma (map py_repr xs) @ (if length xs = 1 then '',)'' else '')'')"
| "py_repr (PList xs) = ''['' @ join_comma (map py_repr xs) @ '']''"
| "py_repr (PFormattedText i xs) =
     ''FormattedText('' @ (''['' @ join_comma (map py_repr xs) @ '']'') @ '')''"
| "py_repr (PObj pt call st rp) = rp"

text \<open>\<open>'{}'.format(v)\<close>, which is \<open>str(v)\<close> for these values.\<close>

fun py_format :: "pyval \<Rightarrow> string" where
  "py_format (PStr s) = s"
| "py_format (PObj pt call st rp) = st"
| "py_format v = py_repr v"

section \<open>\<open>to_formatted_text\<close>\<close>

text \<open>
  Lines 58-62: the assertions on the first element of a non-empty list. \<open>value[0][0]\<close> is
  evaluated and tested first, then \<open>value[0][1]\<close>.
\<close>

definition check_first :: "pyval list \<Rightarrow> pyerror + unit" where
  "check_first xs =
     (case xs of
        [] \<Rightarrow> Inr ()
      | x # _ \<Rightarrow>
          (case py_getitem x 0 of
             Inl e \<Rightarrow> Inl e
           | Inr a \<Rightarrow>
               if \<not> is_str a then Inl (AssertionError (Some a))
               else (case py_getitem x 1 of
                       Inl e \<Rightarrow> Inl e
                     | Inr b \<Rightarrow>
                         if \<not> is_str b then Inl (AssertionError (Some b)) else Inr ())))"

text \<open>
  Line 78, \<open>[(style + ' ' + k, v) for k, v in result]\<close>: the items are handled in order
  and the first exception ends the comprehension.
\<close>

fun style_fast :: "string \<Rightarrow> pyval list \<Rightarrow> pyerror + pyval list" where
  "style_fast style [] = Inr []"
| "style_fast style (item # rest) =
     (case unpack2 item of
        Inl e \<Rightarrow> Inl e
      | Inr (k, v) \<Rightarrow>
          (case str_concat style k of
             Inl e \<Rightarrow> Inl e
           | Inr k' \<Rightarrow>
               (case style_fast style rest of
                  Inl e \<Rightarrow> Inl e
                | Inr r \<Rightarrow> Inr (PTuple [k', v] # r))))"

text \<open>Line 85, \<open>[(style + ' ' + item[0], ) + item[1:] for item in result]\<close>.\<close>

fun style_slow :: "string \<Rightarrow> pyval list \<Rightarrow> pyerror + pyval list" where
  "style_slow style [] = Inr []"
| "style_slow style (item # rest) =
     (case py_getitem item 0 of
        Inl e \<Rightarrow> Inl e
      | Inr a \<Rightarrow>
          (case str_concat style a of
             Inl e \<Rightarrow> Inl e
           | Inr k' \<Rightarrow>
               (case py_slice_from1 item of
                  Inl e \<Rightarrow> Inl e
                | Inr t \<Rightarrow>
                    (case tuple_concat k' t of
                       Inl e \<Rightarrow> Inl e
                     | Inr item' \<Rightarrow>
                         (case style_slow style rest of
                            Inl e \<Rightarrow> Inl e
                          | Inr r \<Rightarrow> Inr (item' # r))))))"

text \<open>
  Lines 77-85: the \<open>try\<close> block. Only the \<open>ValueError\<close> of the unpacking is caught, and
  then the second comprehension starts again from the first item.
\<close>

definition apply_style :: "string \<Rightarrow> pyval \<Rightarrow> pyerror + pyval" where
  "apply_style style result =
     (case py_iter result of
        Inl e \<Rightarrow> Inl e
      | Inr xs \<Rightarrow>
          (case style_fast style xs of
             Inr r \<Rightarrow> Inr (PList r)
           | Inl ValueError_Unpack \<Rightarrow>
               (case style_slow style xs of Inl e \<Rightarrow> Inl e | Inr r \<Rightarrow> Inr (PList r))
           | Inl e \<Rightarrow> Inl e))"

text \<open>
  Lines 90-93: a \<open>FormattedText\<close> instance is returned as it is, anything else goes
  through the constructor \<open>FormattedText(result)\<close>, which iterates over its argument.
\<close>

fun wrap :: "pyval \<Rightarrow> pyerror + formatted_text" where
  "wrap (PFormattedText i xs) = Inr (FormattedText (Existing i) xs)"
| "wrap result =
     (case py_iter result of Inl e \<Rightarrow> Inl e | Inr xs \<Rightarrow> Inr (FormattedText Fresh xs))"

text \<open>Lines 75-93, what follows the \<open>if\<close>/\<open>elif\<close> chain once \<open>result\<close> is bound.\<close>

definition finish :: "pyval \<Rightarrow> string \<Rightarrow> pyerror + formatted_text" where
  "finish result style =
     (if style \<noteq> [] then
        (case apply_style style result of Inl e \<Rightarrow> Inl e | Inr result' \<Rightarrow> wrap result')
      else wrap result)"

text \<open>
  Lines 72-73: \<open>'... Got %r' % value\<close>. The right operand of \<open>%\<close> is the value itself,
  not a 1-tuple holding it, so a tuple is taken as the argument list of the format: a
  1-tuple reports its field, a tuple of any other length makes the formatting itself raise
  \<open>TypeError\<close>.
\<close>

fun raise_no_formatted_text :: "pyval \<Rightarrow> pyerror" where
  "raise_no_formatted_text (PTuple [x]) = ValueError_NoFormattedText x"
| "raise_no_formatted_text (PTuple xs) = TypeError"
| "raise_no_formatted_text v = ValueError_NoFormattedText v"

text \<open>Lines 69-73: the last two branches of the chain.\<close>

definition other_value :: "pyval \<Rightarrow> string \<Rightarrow> bool \<Rightarrow> pyerror + formatted_text" where
  "other_value v style auto_convert =
     (if auto_convert then finish (PList [PTuple [PStr [], PStr (py_format v)]]) style
      else Inl (raise_no_formatted_text v))"

text \<open>
  Lines 53-73. The tests are tried in the order of the source: \<open>None\<close>, \<open>str\<close>, \<open>list\<close>
  (which a \<open>FormattedText\<close> is), the attribute \<open>__pt_formatted_text__\<close>, \<open>callable\<close>. The
  recursive call of line 68 hands on \<open>style\<close> and nothing else, so \<open>auto_convert\<close> takes
  its default there.
\<close>

fun to_formatted_text :: "pyval \<Rightarrow> string \<Rightarrow> bool \<Rightarrow> pyerror + formatted_text" where
  "to_formatted_text PNone style auto_convert = finish (PList []) style"
| "to_formatted_text (PStr s) style auto_convert =
     finish (PList [PTuple [PStr [], PStr s]]) style"
| "to_formatted_text (PList xs) style auto_convert =
     (case check_first xs of Inl e \<Rightarrow> Inl e | Inr u \<Rightarrow> finish (PList xs) style)"
| "to_formatted_text (PFormattedText i xs) style auto_convert =
     (case check_first xs of Inl e \<Rightarrow> Inl e | Inr u \<Rightarrow> finish (PFormattedText i xs) style)"
| "to_formatted_text (PObj (Some r) call st rp) style auto_convert = finish r style"
| "to_formatted_text (PObj None (Some v) st rp) style auto_convert =
     to_formatted_text v style False"
| "to_formatted_text (PObj None None st rp) style auto_convert =
     other_value (PObj None None st rp) style auto_convert"
| "to_formatted_text (PInt n) style auto_convert = other_value (PInt n) style auto_convert"
| "to_formatted_text (PTuple xs) style auto_convert =
     other_value (PTuple xs) style auto_convert"

section \<open>\<open>Template\<close>\<close>

text \<open>\<open>needle in text\<close> for strings: some suffix of \<open>text\<close> starts with \<open>needle\<close>.\<close>

fun starts_with :: "string \<Rightarrow> string \<Rightarrow> bool" where
  "starts_with text [] = True"
| "starts_with [] (n # ns) = False"
| "starts_with (c # cs) (n # ns) = (c = n \<and> starts_with cs ns)"

fun py_contains :: "string \<Rightarrow> string \<Rightarrow> bool" where
  "py_contains needle [] = (needle = [])"
| "py_contains needle (c # cs) = (starts_with (c # cs) needle \<or> py_contains needle cs)"

text \<open>
  \<open>text.split('{}')\<close>: the text is cut at the occurrences of the marker found from left
  to right, each search starting after the previous occurrence.
\<close>

fun split_marker :: "string \<Rightarrow> string list" where
  "split_marker [] = [[]]"
| "split_marker [c] = [[c]]"
| "split_marker (c # d # cs) =
     (if c = CHR 0x7B \<and> d = CHR 0x7D then [] # split_marker cs
      else (case split_marker (d # cs) of
              [] \<Rightarrow> [[c]]
            | p # ps \<Rightarrow> (c # p) # ps))"

text \<open>The number of placeholder markers of a literal, counted the same way.\<close>

fun count_markers :: "string \<Rightarrow> nat" where
  "count_markers [] = 0"
| "count_markers [c] = 0"
| "count_markers (c # d # cs) =
     (if c = CHR 0x7B \<and> d = CHR 0x7D then Suc (count_markers cs)
      else count_markers (d # cs))"

datatype template = Template string

text \<open>Lines 136-138, the constructor with its assertion.\<close>

definition Template_init :: "string \<Rightarrow> pyerror + template" where
  "Template_init text =
     (if py_contains [CHR 0x7B, CHR ''0'', CHR 0x7D] text then Inl (AssertionError None)
      else Inr (Template text))"

text \<open>
  Lines 147-149, the loop over \<open>zip(parts, values)\<close>; \<open>result\<close> holds the items
  appended so far.
\<close>

fun interleave :: "pyval list \<Rightarrow> (string \<times> pyval) list \<Rightarrow> pyerror + pyval list" where
  "interleave result [] = Inr result"
| "interleave result ((part, val) # rest) =
     (case to_formatted_text val [] False of
        Inl e \<Rightarrow> Inl e
      | Inr ft \<Rightarrow> interleave (result @ [PTuple [PStr [], PStr part]] @ ft_items ft) rest)"

text \<open>Lines 141-151, the body of the closure \<open>get_result\<close>.\<close>

definition get_result :: "template \<Rightarrow> pyval list \<Rightarrow> pyerror + formatted_text" where
  "get_result self values =
     (case self of Template text \<Rightarrow>
        (let parts = split_marker text in
         if int (length parts) - 1 \<noteq> int (length values) then Inl (AssertionError None)
         else (case interleave [] (zip parts values) of
                 Inl e \<Rightarrow> Inl e
               | Inr result \<Rightarrow>
                   Inr (FormattedText Fresh (result @ [PTuple [PStr [], PStr (last parts)]])))))"

text \<open>
  Lines 140-152: \<open>format\<close> defines the closure and returns it. Its own body has no
  statement that can raise; the result type keeps the error case so that this can be said.
\<close>

definition Template_format ::
  "template \<Rightarrow> pyval list \<Rightarrow> pyerror + (unit \<Rightarrow> pyerror + formatted_text)" where
  "Template_format self values = Inr (\<lambda>u. get_result self values)"

section \<open>\<open>merge_formatted_text\<close>\<close>

text \<open>
  The argument \<open>items\<close> is any iterable. A \<open>Sequence\<close> (a list or a tuple) can be
  iterated again and again; an \<open>Iterator\<close> (a generator, say) holds the items it has not
  yielded yet and yields each once.
\<close>

datatype py_iterable = Sequence "pyval list" | Iterator "pyval list"

text \<open>
  Lines 161-162, the loop; it returns what it has built, or the exception, and the items
  it has not taken from the iterable.
\<close>

fun merge_loop :: "pyval list \<Rightarrow> pyval list \<Rightarrow> (pyerror + pyval list) \<times> pyval list" where
  "merge_loop result [] = (Inr result, [])"
| "merge_loop result (i # rest) =
     (case to_formatted_text i [] False of
        Inl e \<Rightarrow> (Inl e, rest)
      | Inr ft \<Rightarrow> merge_loop (result @ ft_items ft) rest)"

text \<open>
  The closure \<open>_merge_formatted_text\<close> captures \<open>items\<close>; calling it returns the result
  and leaves the captured iterable in its new state.
\<close>

datatype merged = Merged py_iterable

definition merge_formatted_text :: "py_iterable \<Rightarrow> merged" where
  "merge_formatted_text items = Merged items"

fun wrap_fresh :: "pyerror + pyval list \<Rightarrow> pyerror + formatted_text" where
  "wrap_fresh (Inl e) = Inl e"
| "wrap_fresh (Inr xs) = Inr (FormattedText Fresh xs)"

fun call_merged :: "merged \<Rightarrow> (pyerror + formatted_text) \<times> merged" where
  "call_merged (Merged (Sequence xs)) =
     (wrap_fresh (fst (merge_loop [] xs)), Merged (Sequence xs))"
| "call_merged (Merged (Iterator xs)) =
     (wrap_fresh (fst (merge_loop [] xs)), Merged (Iterator (snd (merge_loop [] xs))))"

section \<open>Notions of the specification\<close>

text \<open>
  A run: a tuple of two or three fields whose style and text are strings.
\<close>

fun is_run :: "pyval \<Rightarrow> bool" where
  "is_run (PTuple [PStr k, PStr t]) = True"
| "is_run (PTuple [PStr k, PStr t, h]) = True"
| "is_run _ = False"

text \<open>
  The run with \<open>style\<close> and a space put before its style field, the other fields kept.
\<close>

fun restyle :: "string \<Rightarrow> pyval \<Rightarrow> pyval" where
  "restyle style (PTuple (PStr k # fields)) = PTuple (PStr (style @ '' '' @ k) # fields)"
| "restyle style v = v"

text \<open>
  The existing \<open>FormattedText\<close> object a value leads to, if any: the value itself, what
  its \<open>__pt_formatted_text__\<close> returns, or what a chain of producers ends in.
\<close>

fun canonical_source :: "pyval \<Rightarrow> nat option" where
  "canonical_source (PFormattedText i xs) = Some i"
| "canonical_source (PObj (Some (PFormattedText i xs)) call st rp) = Some i"
| "canonical_source (PObj (Some r) call st rp) = None"
| "canonical_source (PObj None (Some v) st rp) = canonical_source v"
| "canonical_source v = None"

text \<open>
  The values of the union \<open>AnyFormattedText\<close> of lines 30-35, with \<open>None\<close>: a string, a
  list, an object with \<open>__pt_formatted_text__\<close>, or a producer that returns one of these.
\<close>

fun any_formatted_text :: "pyval \<Rightarrow> bool" where
  "any_formatted_text PNone = True"
| "any_formatted_text (PStr s) = True"
| "any_formatted_text (PList xs) = True"
| "any_formatted_text (PFormattedText i xs) = True"
| "any_formatted_text (PObj (Some r) call st rp) = True"
| "any_formatted_text (PObj None (Some v) st rp) = any_formatted_text v"
| "any_formatted_text v = False"

text \<open>
  The items of \<open>to_formatted_text(v)\<close>, called as lines 149 and 162 call it (no style,
  no conversion); no item when the call raises.
\<close>

fun normalized_items :: "pyval \<Rightarrow> pyval list" where
  "normalized_items v =
     (case to_formatted_text v [] False of Inl e \<Rightarrow> [] | Inr ft \<Rightarrow> ft_items ft)"

section \<open>Producers\<close>

lemma auto_convert_unused:
  "any_formatted_text v \<Longrightarrow> to_formatted_text v s a = to_formatted_text v s False"
  by (induction v s a rule: to_formatted_text.induct) simp_all

text \<open>
  Claim C1, as the code has it. For a producer that returns \<open>v\<close>,
  \<open>to_formatted_text(p, s, a)\<close> is \<open>to_formatted_text(v, s, False)\<close>: the style is handed
  to the recursive call and applied there, once, and the flag \<open>auto_convert\<close> is not handed
  on. So the result is \<open>to_formatted_text(v, s, a)\<close> when \<open>a\<close> is false, and also when \<open>v\<close>
  is formatted text, for which the flag is never read.
\<close>

theorem producer_resolution:
  "to_formatted_text (PObj None (Some v) st rp) s a = to_formatted_text v s False \<and>
   (\<not> a \<or> any_formatted_text v \<longrightarrow>
      to_formatted_text (PObj None (Some v) st rp) s a = to_formatted_text v s a)"
  using auto_convert_unused [of v s a] by auto

theorem producer_resolution_witness:
  "any_formatted_text (PStr ''hi'') \<and>
   to_formatted_text (PObj None (Some (PStr ''hi'')) ''f'' ''f'') ''bold'' True =
     to_formatted_text (PStr ''hi'') ''bold'' True \<and>
   to_formatted_text (PStr ''hi'') ''bold'' True =
     Inr (FormattedText Fresh [PTuple [PStr ''bold '', PStr ''hi'']])"
  using producer_resolution [of "PStr ''hi''" "''f''" "''f''" "''bold''" True]
  by (simp add: finish_def apply_style_def unpack2_def)

text \<open>
  Claim C1 as stated fails when the producer returns a value that is not formatted text:
  with \<open>auto_convert\<close> enabled, \<open>42\<close> is converted but a producer returning \<open>42\<close> raises.
\<close>

theorem producer_auto_convert_counterexample:
  "to_formatted_text (PObj None (Some (PInt 42)) ''f'' ''f'') [] True \<noteq>
   to_formatted_text (PInt 42) [] True"
  by (simp add: other_value_def finish_def)

section \<open>Style prefixing\<close>

lemma is_run_cases:
  "is_run x \<Longrightarrow>
     (\<exists>k t. x = PTuple [PStr k, PStr t]) \<or> (\<exists>k t h. x = PTuple [PStr k, PStr t, h])"
  by (induction x rule: is_run.induct) simp_all

lemma style_slow_run:
  "is_run x \<Longrightarrow> style_slow s rest = Inr r \<Longrightarrow>
     style_slow s (x # rest) = Inr (restyle s x # r)"
  by (auto dest!: is_run_cases simp: py_getitem_def)

lemma style_slow_runs:
  "\<forall>x\<in>set xs. is_run x \<Longrightarrow> style_slow s xs = Inr (map (restyle s) xs)"
proof (induction xs)
  case Nil
  show ?case by simp
next
  case (Cons x xs)
  then have "is_run x" and "style_slow s xs = Inr (map (restyle s) xs)" by simp_all
  then have "style_slow s (x # xs) = Inr (restyle s x # map (restyle s) xs)"
    by (rule style_slow_run)
  then show ?case by simp
qed

lemma style_fast_runs:
  "\<forall>x\<in>set xs. is_run x \<Longrightarrow>
     style_fast s xs = Inr (map (restyle s) xs) \<or> style_fast s xs = Inl ValueError_Unpack"
proof (induction xs)
  case Nil
  show ?case by simp
next
  case (Cons x xs)
  then have run: "is_run x" and tail: "style_fast s xs = Inr (map (restyle s) xs) \<or>
      style_fast s xs = Inl ValueError_Unpack"
    by simp_all
  from is_run_cases [OF run] show ?case
  proof
    assume "\<exists>k t. x = PTuple [PStr k, PStr t]"
    with tail show ?thesis by (auto simp: unpack2_def)
  next
    assume "\<exists>k t h. x = PTuple [PStr k, PStr t, h]"
    then show ?thesis by (auto simp: unpack2_def)
  qed
qed

lemma apply_style_runs:
  assumes "\<forall>x\<in>set xs. is_run x" and "py_iter result = Inr xs"
  shows "apply_style s result = Inr (PList (map (restyle s) xs))"
  using style_fast_runs [OF assms(1), of s] style_slow_runs [OF assms(1), of s] assms(2)
  by (auto simp: apply_style_def)

lemma check_first_run:
  "xs = [] \<or> is_run (hd xs) \<Longrightarrow> check_first xs = Inr ()"
  by (cases xs) (auto dest!: is_run_cases simp: check_first_def py_getitem_def)

text \<open>
  Claim C4. For a list \<open>R\<close> (plain or \<open>FormattedText\<close>) whose items are runs of two or
  three fields, in any mixture, and a non-empty style \<open>s\<close>, \<open>to_formatted_text(R, s)\<close> is a
  new \<open>FormattedText\<close> holding, in order, every run with \<open>s + ' '\<close> put before its style
  field and its other fields (the text, the handler if any) unchanged.
\<close>

theorem style_prefixing:
  assumes "s \<noteq> []" and "\<forall>x\<in>set R. is_run x"
  shows "to_formatted_text (PList R) s a = Inr (FormattedText Fresh (map (restyle s) R)) \<and>
         to_formatted_text (PFormattedText i R) s a =
           Inr (FormattedText Fresh (map (restyle s) R))"
proof -
  from assms(2) have "R = [] \<or> is_run (hd R)" by (cases R) simp_all
  then have chk: "check_first R = Inr ()" by (rule check_first_run)
  have "apply_style s (PList R) = Inr (PList (map (restyle s) R))"
    and "apply_style s (PFormattedText i R) = Inr (PList (map (restyle s) R))"
    using assms(2) by (simp_all add: apply_style_runs)
  with chk assms(1) show ?thesis by (simp add: finish_def)
qed

theorem style_prefixing_witness:
  "to_formatted_text
     (PList [PTuple [PStr ''a'', PStr ''x''],
             PTuple [PStr ''b'', PStr ''y'', PObj None None ''h'' ''h'']]) ''bold'' False =
   Inr (FormattedText Fresh
     [PTuple [PStr ''bold a'', PStr ''x''],
      PTuple [PStr ''bold b'', PStr ''y'', PObj None None ''h'' ''h'']])"
  using style_prefixing [of "''bold''"
      "[PTuple [PStr ''a'', PStr ''x''],
        PTuple [PStr ''b'', PStr ''y'', PObj None None ''h'' ''h'']]" False 0]
  by simp

section \<open>Validation of the first element\<close>

text \<open>
  Claim C5. For a non-empty list whose first element is a tuple with a style field \<open>a\<close> and
  a text field \<open>b\<close>: if \<open>a\<close> is not a string the call raises the assertion error reporting
  \<open>a\<close>, if \<open>a\<close> is a string and \<open>b\<close> is not it raises the one reporting \<open>b\<close>, whatever the
  style and the flag. Only the first element is examined: when it is a run the list is
  accepted and returned with all its items, whatever the later ones are (with the default,
  empty style; a non-empty style is then applied to every item by lines 76-85).
\<close>

theorem first_element_validation:
  assumes "L = PList xs \<or> L = PFormattedText i xs"
  shows "(\<forall>a b fs more. xs = PTuple (a # b # fs) # more \<and> \<not> is_str a \<longrightarrow>
            to_formatted_text L s ac = Inl (AssertionError (Some a))) \<and>
         (\<forall>a b fs more. xs = PTuple (a # b # fs) # more \<and> is_str a \<and> \<not> is_str b \<longrightarrow>
            to_formatted_text L s ac = Inl (AssertionError (Some b))) \<and>
         (\<forall>first more. xs = first # more \<and> is_run first \<longrightarrow>
            (\<exists>r. to_formatted_text L [] ac = Inr (FormattedText r xs)))"
  using assms
  by (auto dest!: is_run_cases simp: check_first_def py_getitem_def finish_def)

theorem first_element_validation_witness:
  "to_formatted_text (PList [PTuple [PInt 1, PStr ''x'']]) [] False =
     Inl (AssertionError (Some (PInt 1))) \<and>
   to_formatted_text (PList [PTuple [PStr ''x'', PInt 1]]) [] False =
     Inl (AssertionError (Some (PInt 1))) \<and>
   (\<exists>r. to_formatted_text (PList [PTuple [PStr ''a'', PStr ''b''], PInt 7]) [] False =
     Inr (FormattedText r [PTuple [PStr ''a'', PStr ''b''], PInt 7]))"
  using first_element_validation [of "PList [PTuple [PInt 1, PStr ''x'']]"
          "[PTuple [PInt 1, PStr ''x'']]" 0 "[]" False]
        first_element_validation [of "PList [PTuple [PStr ''x'', PInt 1]]"
          "[PTuple [PStr ''x'', PInt 1]]" 0 "[]" False]
        first_element_validation [of "PList [PTuple [PStr ''a'', PStr ''b''], PInt 7]"
          "[PTuple [PStr ''a'', PStr ''b''], PInt 7]" 0 "[]" False]
  by simp

text \<open>
  Claim C10, as the code has it. A first element with no field, or with a single field
  that is a string, makes the subscript of line 59 or 61 raise \<open>IndexError\<close>. A first
  element with a single field that is not a string fails the assertion of line 59 before
  \<open>value[0][1]\<close> is read, and raises the assertion error reporting that field.
\<close>

theorem short_first_element:
  assumes "L = PList (PTuple fs # more) \<or> L = PFormattedText i (PTuple fs # more)"
  shows "(fs = [] \<longrightarrow> to_formatted_text L s ac = Inl IndexError) \<and>
         (\<forall>k. fs = [PStr k] \<longrightarrow> to_formatted_text L s ac = Inl IndexError) \<and>
         (\<forall>a. fs = [a] \<and> \<not> is_str a \<longrightarrow>
            to_formatted_text L s ac = Inl (AssertionError (Some a)))"
  using assms by (auto simp: check_first_def py_getitem_def)

theorem short_first_element_witness:
  "to_formatted_text (PList [PTuple []]) [] False = Inl IndexError \<and>
   to_formatted_text (PList [PTuple [PStr ''x'']]) [] False = Inl IndexError \<and>
   to_formatted_text (PList [PTuple [PNone]]) [] False = Inl (AssertionError (Some PNone))"
  using short_first_element [of "PList [PTuple []]" "[]" "[]" 0 "[]" False]
        short_first_element [of "PList [PTuple [PStr ''x'']]" "[PStr ''x'']" "[]" 0 "[]" False]
        short_first_element [of "PList [PTuple [PNone]]" "[PNone]" "[]" 0 "[]" False]
  by simp

text \<open>
  Claim C10 as stated fails for the 1-tuple \<open>(1, )\<close>: the error is the descriptive one.
\<close>

theorem short_first_element_counterexample:
  "to_formatted_text (PList [PTuple [PInt 1]]) [] False = Inl (AssertionError (Some (PInt 1))) \<and>
   to_formatted_text (PList [PTuple [PInt 1]]) [] False \<noteq> Inl IndexError"
  by (simp add: check_first_def py_getitem_def)

section \<open>Templates\<close>

lemma length_split_marker: "length (split_marker lit) = Suc (count_markers lit)"
  by (induction lit rule: split_marker.induct) (auto split: list.splits)

text \<open>
  Claim C3, as the code has it. \<open>format\<close> only builds the closure and never raises. When
  the number of arguments differs from the number of markers of the literal, fewer or more,
  it is the producer returned by \<open>format\<close> that raises the assertion error of line 144,
  each time it is called; it does so before any argument is normalised, whatever the
  arguments are.
\<close>

theorem template_arity_violation:
  assumes "length values \<noteq> count_markers lit"
  shows "\<exists>p. Template_format (Template lit) values = Inr p \<and>
             p () = Inl (AssertionError None)"
  using assms by (auto simp: Template_format_def get_result_def length_split_marker)

theorem template_arity_violation_witness:
  "length [PStr ''x'', PStr ''y''] \<noteq> count_markers ''a{}b'' \<and>
   (\<exists>p. Template_format (Template ''a{}b'') [PStr ''x'', PStr ''y''] = Inr p \<and>
        p () = Inl (AssertionError None))"
  using template_arity_violation [of "[PStr ''x'', PStr ''y'']" "''a{}b''"] by simp

text \<open>
  Claim C3 as stated fails: \<open>Template("a{}b").format(x, y)\<close> returns a producer.
\<close>

theorem template_format_counterexample:
  "Template_init ''a{}b'' = Inr (Template ''a{}b'') \<and>
   \<not> isl (Template_format (Template ''a{}b'') [PStr ''x'', PStr ''y''])"
  by (simp add: Template_init_def Template_format_def)

text \<open>
  Claim C8. \<open>Template("a{}b{}c").format(x, y)\<close> returns a producer without looking at
  \<open>x\<close> and \<open>y\<close>; calling the producer normalises \<open>x\<close>, then \<open>y\<close>, and returns a new
  \<open>FormattedText\<close> with the runs \<open>("", "a")\<close>, those of \<open>x\<close>, \<open>("", "b")\<close>, those of \<open>y\<close>,
  \<open>("", "c")\<close>, in this order. An exception of a normalisation is the one the producer
  raises.
\<close>

theorem template_interleaving:
  "Template_init ''a{}b{}c'' = Inr (Template ''a{}b{}c'') \<and>
   (\<exists>p. Template_format (Template ''a{}b{}c'') [x, y] = Inr p \<and>
        p () =
          (case to_formatted_text x [] False of
             Inl e \<Rightarrow> Inl e
           | Inr fx \<Rightarrow>
               (case to_formatted_text y [] False of
                  Inl e \<Rightarrow> Inl e
                | Inr fy \<Rightarrow>
                    Inr (FormattedText Fresh
                          ([PTuple [PStr [], PStr ''a'']] @ ft_items fx @
                           [PTuple [PStr [], PStr ''b'']] @ ft_items fy @
                           [PTuple [PStr [], PStr ''c'']])))))"
proof -
  have parts: "split_marker ''a{}b{}c'' = [''a'', ''b'', ''c'']" by simp
  have init: "Template_init ''a{}b{}c'' = Inr (Template ''a{}b{}c'')"
    by (simp add: Template_init_def)
  have "get_result (Template ''a{}b{}c'') [x, y] =
          (case to_formatted_text x [] False of
             Inl e \<Rightarrow> Inl e
           | Inr fx \<Rightarrow>
               (case to_formatted_text y [] False of
                  Inl e \<Rightarrow> Inl e
                | Inr fy \<Rightarrow>
                    Inr (FormattedText Fresh
                          ([PTuple [PStr [], PStr ''a'']] @ ft_items fx @
                           [PTuple [PStr [], PStr ''b'']] @ ft_items fy @
                           [PTuple [PStr [], PStr ''c'']]))))"
    unfolding get_result_def template.case parts
    by (simp split: sum.splits)
  with init show ?thesis by (simp add: Template_format_def)
qed

section \<open>Merging\<close>

lemma merge_loop_ok:
  "\<forall>x\<in>set items. \<not> isl (to_formatted_text x [] False) \<Longrightarrow>
     merge_loop result items = (Inr (result @ concat (map normalized_items items)), [])"
proof (induction items arbitrary: result)
  case Nil
  show ?case by simp
next
  case (Cons x items)
  then obtain ft where "to_formatted_text x [] False = Inr ft"
    by (cases "to_formatted_text x [] False") simp_all
  with Cons show ?case by simp
qed

text \<open>
  Claim C9. For a list of items that all normalise, calling the producer returned by
  \<open>merge_formatted_text\<close> gives a new \<open>FormattedText\<close> holding the runs of the items, item
  after item in the order of the list. Over a list (an input that can be iterated again),
  a second call of the same producer returns what the first returned.
\<close>

theorem merge_concatenation:
  "((\<forall>x\<in>set items. \<not> isl (to_formatted_text x [] False)) \<longrightarrow>
      fst (call_merged (merge_formatted_text (Sequence items))) =
        Inr (FormattedText Fresh (concat (map normalized_items items)))) \<and>
   fst (call_merged (snd (call_merged (merge_formatted_text (Sequence items))))) =
     fst (call_merged (merge_formatted_text (Sequence items)))"
  using merge_loop_ok [of items "[]"] by (auto simp: merge_formatted_text_def)

theorem merge_concatenation_witness:
  "to_formatted_text (PStr ''a'') [] False =
     Inr (FormattedText Fresh [PTuple [PStr [], PStr ''a'']]) \<and>
   to_formatted_text (PList [PTuple [PStr ''s'', PStr ''b'']]) [] False =
     Inr (FormattedText Fresh [PTuple [PStr ''s'', PStr ''b'']]) \<and>
   to_formatted_text PNone [] False = Inr (FormattedText Fresh []) \<and>
   fst (call_merged (merge_formatted_text
          (Sequence [PStr ''a'', PList [PTuple [PStr ''s'', PStr ''b'']], PNone]))) =
     Inr (FormattedText Fresh [PTuple [PStr [], PStr ''a''], PTuple [PStr ''s'', PStr ''b'']])"
  using merge_concatenation [of "[PStr ''a'', PList [PTuple [PStr ''s'', PStr ''b'']], PNone]"]
  by (simp add: finish_def check_first_def py_getitem_def)

text \<open>
  Over an iterator the second call finds nothing left: the hypothesis of a re-iterable
  input is needed.
\<close>

lemma merge_single_use:
  "fst (call_merged (snd (call_merged (merge_formatted_text (Iterator [PStr ''a''])))))
     = Inr (FormattedText Fresh []) \<and>
   fst (call_merged (merge_formatted_text (Iterator [PStr ''a''])))
     = Inr (FormattedText Fresh [PTuple [PStr [], PStr ''a'']])"
  by (simp add: merge_formatted_text_def finish_def)

section \<open>Identity of the result\<close>

lemma apply_style_plain_list:
  "apply_style s result = Inr result' \<Longrightarrow> \<exists>ys. result' = PList ys"
  by (auto simp: apply_style_def split: sum.splits pyerror.splits)

lemma wrap_ref:
  "wrap result = Inr ft \<Longrightarrow>
     ft_ref ft = (case result of PFormattedText i xs \<Rightarrow> Existing i | _ \<Rightarrow> Fresh)"
  by (cases result) (auto split: sum.splits)

lemma finish_ref:
  assumes "finish result s = Inr ft"
  shows "ft_ref ft =
     (if s = [] then (case result of PFormattedText i xs \<Rightarrow> Existing i | _ \<Rightarrow> Fresh)
      else Fresh)"
proof (cases "s = []")
  case True
  with assms show ?thesis by (simp add: finish_def wrap_ref)
next
  case False
  with assms obtain result' where a: "apply_style s result = Inr result'"
    and w: "wrap result' = Inr ft"
    by (auto simp: finish_def split: sum.splits)
  from apply_style_plain_list [OF a] obtain ys where "result' = PList ys" ..
  with w False show ?thesis by auto
qed

lemma result_ref:
  "to_formatted_text v s a = Inr ft \<Longrightarrow>
     ft_ref ft =
       (if s = [] then (case canonical_source v of Some j \<Rightarrow> Existing j | None \<Rightarrow> Fresh)
        else Fresh)"
proof (induction v s a rule: to_formatted_text.induct)
  case (5 r call st rp style auto_convert)
  then have "finish r style = Inr ft" by simp
  from finish_ref [OF this] show ?case by (cases r) simp_all
qed (auto simp: other_value_def dest!: finish_ref split: sum.splits if_splits)

text \<open>
  Claim C7, as the code has it. A \<open>FormattedText\<close> that is empty or starts with a run,
  normalised with the empty style, is returned itself: the same object, no copy. It is not
  the only case of a shared result. Whenever a call succeeds, its result is an object that
  existed before exactly when the style is empty and the value leads to a \<open>FormattedText\<close>
  (it is one, its \<open>__pt_formatted_text__\<close> returns one, or its chain of producers ends in
  one of these), and then it is that object; in every other case the result is new.
\<close>

theorem canonical_identity:
  "(xs = [] \<or> is_run (hd xs) \<longrightarrow>
      to_formatted_text (PFormattedText i xs) [] a = Inr (FormattedText (Existing i) xs)) \<and>
   (to_formatted_text v s b = Inr ft \<longrightarrow>
      ft_ref ft =
        (if s = [] then (case canonical_source v of Some j \<Rightarrow> Existing j | None \<Rightarrow> Fresh)
         else Fresh))"
  using check_first_run [of xs] result_ref [of v s b ft] by (auto simp: finish_def)

theorem canonical_identity_witness:
  "to_formatted_text (PFormattedText 3 [PTuple [PStr ''a'', PStr ''b'']]) [] False =
     Inr (FormattedText (Existing 3) [PTuple [PStr ''a'', PStr ''b'']]) \<and>
   to_formatted_text (PList [PTuple [PStr ''a'', PStr ''b'']]) [] False =
     Inr (FormattedText Fresh [PTuple [PStr ''a'', PStr ''b'']]) \<and>
   ft_ref (FormattedText Fresh [PTuple [PStr ''a'', PStr ''b'']]) = Fresh"
  using canonical_identity [of "[PTuple [PStr ''a'', PStr ''b'']]" 3 False
      "PList [PTuple [PStr ''a'', PStr ''b'']]" "[]" False
      "FormattedText Fresh [PTuple [PStr ''a'', PStr ''b'']]"]
  by (simp add: check_first_def py_getitem_def finish_def)

text \<open>
  Claim C7 as stated fails in its last part: a producer that returns an existing
  \<open>FormattedText\<close>, and an object whose \<open>__pt_formatted_text__\<close> returns one, are not of
  the canonical type, and the result of normalising them is that existing object.
\<close>

theorem canonical_identity_counterexample:
  "to_formatted_text (PObj None (Some (PFormattedText 7 [])) ''f'' ''f'') [] False =
     Inr (FormattedText (Existing 7) []) \<and>
   to_formatted_text (PObj (Some (PFormattedText 7 [])) None ''o'' ''o'') [] False =
     Inr (FormattedText (Existing 7) [])"
  by (simp add: check_first_def finish_def)

section \<open>Self-describing objects\<close>

text \<open>
  Line 66 binds \<open>result\<close> to what \<open>__pt_formatted_text__\<close> returns and goes on to lines
  75-93: the returned value is not normalised.
\<close>

lemma self_describing_not_normalized:
  "to_formatted_text (PObj (Some v) call st rp) s a = finish v s"
  by simp

text \<open>
  Claim C2 at an object whose \<open>__pt_formatted_text__\<close> returns the string \<open>"hi"\<close>. With
  no style the result holds the two characters as items, where normalising \<open>"hi"\<close> gives
  the run \<open>("", "hi")\<close>; with the style \<open>"bold"\<close> the call raises \<open>TypeError\<close>, where
  normalising \<open>"hi"\<close> gives the run \<open>("bold ", "hi")\<close>.
\<close>

theorem self_describing_string:
  "to_formatted_text (PObj (Some (PStr ''hi'')) None ''o'' ''o'') [] False =
     Inr (FormattedText Fresh [PStr ''h'', PStr ''i'']) \<and>
   to_formatted_text (PStr ''hi'') [] False =
     Inr (FormattedText Fresh [PTuple [PStr [], PStr ''hi'']]) \<and>
   to_formatted_text (PObj (Some (PStr ''hi'')) None ''o'' ''o'') ''bold'' False = Inl TypeError \<and>
   to_formatted_text (PStr ''hi'') ''bold'' False =
     Inr (FormattedText Fresh [PTuple [PStr ''bold '', PStr ''hi'']])"
  by (simp add: finish_def apply_style_def unpack2_def py_getitem_def)

section \<open>Values that are not formatted text\<close>

text \<open>
  An integer, or an object that has no \<open>__pt_formatted_text__\<close> and is not callable:
  without \<open>auto_convert\<close> the call raises the \<open>ValueError\<close> reporting the value, with it
  (and no style) the result is the single run of the empty style and \<open>str\<close> of the value.
\<close>

lemma unsupported_input:
  assumes "v = PInt n \<or> v = PObj None None st rp"
  shows "to_formatted_text v s False = Inl (ValueError_NoFormattedText v) \<and>
         to_formatted_text v [] True =
           Inr (FormattedText Fresh [PTuple [PStr [], PStr (py_format v)]])"
  using assms by (auto simp: other_value_def finish_def)

lemma unsupported_42:
  "to_formatted_text (PInt 42) [] False = Inl (ValueError_NoFormattedText (PInt 42)) \<and>
   to_formatted_text (PInt 42) [] True =
     Inr (FormattedText Fresh [PTuple [PStr [], PStr ''42'']])"
  by code_simp

text \<open>
  Claim C6 at tuples. A tuple matches none of the accepted shapes. Without \<open>auto_convert\<close>
  the format \<open>'... Got %r' % value\<close> of lines 72-73 takes the tuple as its argument list:
  for \<open>('bold', 'x')\<close> and for \<open>()\<close> the formatting raises \<open>TypeError\<close> and no \<open>ValueError\<close>
  is built; for \<open>(1, )\<close> the \<open>ValueError\<close> reports \<open>1\<close>, not the value.
\<close>

theorem unsupported_tuple:
  "to_formatted_text (PTuple [PStr ''bold'', PStr ''x'']) [] False = Inl TypeError \<and>
   to_formatted_text (PTuple []) [] False = Inl TypeError \<and>
   to_formatted_text (PTuple [PInt 1]) [] False = Inl (ValueError_NoFormattedText (PInt 1))"
  by (simp add: other_value_def)

end
